theory Spec2Isabelle
  imports Complex_Main "HOL-Library.Sublist" "HOL-Library.Multiset"
begin

section \<open>JavaScript values used by VideoJSPlayer.jsx\<close>

text \<open>
  Strings are byte lists. \<open>toLowerCase\<close> folds the ASCII letters only; the source's
  \<^verbatim>\<open>String.prototype.toLowerCase\<close> also folds non-ASCII letters, which the byte model
  leaves unchanged. An optional field (\<^verbatim>\<open>undefined\<close> or \<^verbatim>\<open>null\<close>) is \<open>None\<close>.
\<close>

definition toLowerCase_chr :: "char \<Rightarrow> char" where
  "toLowerCase_chr c =
     (let n = (of_char c :: nat) in if 65 \<le> n \<and> n \<le> 90 then char_of (n + 32) else c)"

definition toLowerCase :: "string \<Rightarrow> string" where
  "toLowerCase s = map toLowerCase_chr s"

text \<open>\<^verbatim>\<open>s.includes(t)\<close>, \<^verbatim>\<open>s.startsWith(t)\<close>, \<^verbatim>\<open>s.endsWith(t)\<close>.\<close>

definition str_includes :: "string \<Rightarrow> string \<Rightarrow> bool" where
  "str_includes s t = sublist t s"

definition startsWith :: "string \<Rightarrow> string \<Rightarrow> bool" where
  "startsWith s t = prefix t s"


text \<open>\<^verbatim>\<open>s.replace(pat, rep)\<close> with a string pattern: only the first occurrence is replaced.\<close>

fun replace :: "string \<Rightarrow> string \<Rightarrow> string \<Rightarrow> string" where
  "replace pat rep [] = (if pat = [] then rep else [])"
| "replace pat rep (c # cs) =
     (if prefix pat (c # cs) then rep @ drop (length pat) (c # cs)
      else c # replace pat rep cs)"

text \<open>Truthiness of an optional string: \<^verbatim>\<open>undefined\<close>, \<^verbatim>\<open>null\<close> and \<^verbatim>\<open>''\<close> are falsy.\<close>

definition truthy :: "string option \<Rightarrow> bool" where
  "truthy v = (case v of None \<Rightarrow> False | Some s \<Rightarrow> s \<noteq> [])"

text \<open>\<^verbatim>\<open>a || b\<close> on optional strings, and \<^verbatim>\<open>a || 'literal'\<close>.\<close>

definition or_else :: "string option \<Rightarrow> string option \<Rightarrow> string option" where
  "or_else a b = (if truthy a then a else b)"

definition or_default :: "string option \<Rightarrow> string \<Rightarrow> string" where
  "or_default a d = (case a of None \<Rightarrow> d | Some s \<Rightarrow> if s = [] then d else s)"

text \<open>
  \<^verbatim>\<open>parseInt\<close>: leading white space is skipped, then an optional sign, then (only when
  no radix is passed) an optional \<^verbatim>\<open>0x\<close> prefix selecting radix 16, then the longest run
  of digits of the radix; no digit at all gives \<^verbatim>\<open>NaN\<close>, here \<open>None\<close>. The value is exact
  (the source's is rounded to a double beyond \<open>2^53\<close>).
\<close>

definition is_ws :: "char \<Rightarrow> bool" where
  "is_ws c = (let n = (of_char c :: nat) in n = 32 \<or> (9 \<le> n \<and> n \<le> 13))"

definition digit_of :: "nat \<Rightarrow> char \<Rightarrow> nat option" where
  "digit_of R c =
     (let n = (of_char c :: nat);
          d = (if 48 \<le> n \<and> n \<le> 57 then Some (n - 48)
               else if 97 \<le> n \<and> n \<le> 122 then Some (n - 87)
               else if 65 \<le> n \<and> n \<le> 90 then Some (n - 55)
               else None)
      in case d of None \<Rightarrow> None | Some v \<Rightarrow> if v < R then Some v else None)"

fun digits_val :: "nat \<Rightarrow> nat \<Rightarrow> string \<Rightarrow> nat" where
  "digits_val R acc [] = acc"
| "digits_val R acc (c # cs) =
     (case digit_of R c of None \<Rightarrow> acc | Some d \<Rightarrow> digits_val R (acc * R + d) cs)"

definition strip_sign :: "string \<Rightarrow> bool \<times> string" where
  "strip_sign s =
     (case s of [] \<Rightarrow> (False, [])
      | c # cs \<Rightarrow> if c = CHR ''-'' then (True, cs)
                 else if c = CHR ''+'' then (False, cs) else (False, s))"

definition parseInt_radix :: "bool \<Rightarrow> string \<Rightarrow> int option" where
  "parseInt_radix stripPrefix s =
     (let (neg, s2) = strip_sign (dropWhile is_ws s);
          (R, s3) = (if stripPrefix \<and> (prefix ''0x'' s2 \<or> prefix ''0X'' s2)
                     then (16, drop 2 s2) else (10, s2))
      in case s3 of [] \<Rightarrow> None
         | c # _ \<Rightarrow>
             (case digit_of R c of None \<Rightarrow> None
              | Some _ \<Rightarrow> Some ((if neg then - 1 else 1) * int (digits_val R 0 s3))))"

text \<open>\<^verbatim>\<open>parseInt(s)\<close> and \<^verbatim>\<open>parseInt(s, 10)\<close>.\<close>

definition parseInt :: "string \<Rightarrow> int option" where
  "parseInt s = parseInt_radix True s"

definition parseInt10 :: "string \<Rightarrow> int option" where
  "parseInt10 s = parseInt_radix False s"

text \<open>
  \<^verbatim>\<open>Array.prototype.sort(compare)\<close> is stable. The comparator's result is an optional
  integer (\<open>None\<close> for \<^verbatim>\<open>NaN\<close>, which the sort treats as 0). For a consistent comparator
  the stable order is unique and insertion sort computes it; for an inconsistent one the
  source's order is implementation-defined and the model fixes this one.
\<close>

definition positive :: "int option \<Rightarrow> bool" where
  "positive r = (case r of None \<Rightarrow> False | Some d \<Rightarrow> 0 < d)"

fun sort_insert :: "('a \<Rightarrow> 'a \<Rightarrow> int option) \<Rightarrow> 'a \<Rightarrow> 'a list \<Rightarrow> 'a list" where
  "sort_insert compare x [] = [x]"
| "sort_insert compare x (y # ys) =
     (if positive (compare x y) then y # sort_insert compare x ys else x # y # ys)"

definition js_sort :: "('a \<Rightarrow> 'a \<Rightarrow> int option) \<Rightarrow> 'a list \<Rightarrow> 'a list" where
  "js_sort compare xs = foldr (sort_insert compare) xs []"

definition minus_opt :: "int option \<Rightarrow> int option \<Rightarrow> int option" where
  "minus_opt a b = (case (a, b) of (Some x, Some y) \<Rightarrow> Some (x - y) | _ \<Rightarrow> None)"

text \<open>
  Numbers. A JavaScript number is a double; the model keeps \<^verbatim>\<open>NaN\<close> and the two
  infinities and takes the finite values as exact rationals (rounding and overflow are
  not modelled; \<open>-0\<close> is \<open>0\<close>).
\<close>

datatype jsnum = Num rat | PosInf | NegInf | NaN

fun js_add :: "jsnum \<Rightarrow> jsnum \<Rightarrow> jsnum" where
  "js_add NaN _ = NaN"
| "js_add _ NaN = NaN"
| "js_add (Num a) (Num b) = Num (a + b)"
| "js_add PosInf NegInf = NaN"
| "js_add NegInf PosInf = NaN"
| "js_add PosInf _ = PosInf"
| "js_add NegInf _ = NegInf"
| "js_add (Num a) PosInf = PosInf"
| "js_add (Num a) NegInf = NegInf"

fun js_neg :: "jsnum \<Rightarrow> jsnum" where
  "js_neg (Num a) = Num (- a)"
| "js_neg PosInf = NegInf"
| "js_neg NegInf = PosInf"
| "js_neg NaN = NaN"

definition js_sub :: "jsnum \<Rightarrow> jsnum \<Rightarrow> jsnum" where
  "js_sub a b = js_add a (js_neg b)"

fun js_abs :: "jsnum \<Rightarrow> jsnum" where
  "js_abs (Num a) = Num \<bar>a\<bar>"
| "js_abs PosInf = PosInf"
| "js_abs NegInf = PosInf"
| "js_abs NaN = NaN"

text \<open>\<^verbatim>\<open>a * b\<close> for a finite \<open>b\<close> (the source multiplies by 3600 and by 60).\<close>

fun js_scale :: "jsnum \<Rightarrow> rat \<Rightarrow> jsnum" where
  "js_scale (Num a) b = Num (a * b)"
| "js_scale NaN b = NaN"
| "js_scale PosInf b = (if b = 0 then NaN else if 0 < b then PosInf else NegInf)"
| "js_scale NegInf b = (if b = 0 then NaN else if 0 < b then NegInf else PosInf)"

text \<open>\<^verbatim>\<open>a <= b\<close>, \<^verbatim>\<open>a > b\<close> and \<^verbatim>\<open>a === b\<close>: every comparison with \<^verbatim>\<open>NaN\<close> is false.\<close>

fun js_le :: "jsnum \<Rightarrow> jsnum \<Rightarrow> bool" where
  "js_le NaN _ = False"
| "js_le _ NaN = False"
| "js_le (Num a) (Num b) = (a \<le> b)"
| "js_le NegInf _ = True"
| "js_le _ PosInf = True"
| "js_le PosInf _ = False"
| "js_le (Num a) NegInf = False"

definition js_gt :: "jsnum \<Rightarrow> jsnum \<Rightarrow> bool" where
  "js_gt a b = (a \<noteq> NaN \<and> b \<noteq> NaN \<and> \<not> js_le a b)"

definition js_eq :: "jsnum \<Rightarrow> jsnum \<Rightarrow> bool" where
  "js_eq a b = (a \<noteq> NaN \<and> a = b)"

definition js_truthy :: "jsnum \<Rightarrow> bool" where
  "js_truthy a = (a \<noteq> NaN \<and> a \<noteq> Num 0)"

text \<open>\<^verbatim>\<open>x || 0\<close> on a number.\<close>

definition or_zero :: "jsnum \<Rightarrow> jsnum" where
  "or_zero a = (if js_truthy a then a else Num 0)"

definition of_parsed :: "int option \<Rightarrow> jsnum" where
  "of_parsed r = (case r of None \<Rightarrow> NaN | Some i \<Rightarrow> Num (of_int i))"

text \<open>
  \<^verbatim>\<open>parseFloat\<close>: leading white space is skipped; the longest prefix that is a decimal
  literal is read: an optional sign, then \<^verbatim>\<open>Infinity\<close>, or digits with an optional
  fraction, or a fraction alone, each with an optional exponent; no such prefix gives
  \<^verbatim>\<open>NaN\<close>.
\<close>

definition is_digit :: "char \<Rightarrow> bool" where
  "is_digit c = (digit_of 10 c \<noteq> None)"

definition decimal :: "string \<Rightarrow> nat" where
  "decimal ds = digits_val 10 0 ds"

definition exponent :: "string \<Rightarrow> int" where
  "exponent s =
     (case s of [] \<Rightarrow> 0
      | c # cs \<Rightarrow>
          if c = CHR ''e'' \<or> c = CHR ''E'' then
            (let (neg, ds) = strip_sign cs; ed = takeWhile is_digit ds
             in if ed = [] then 0
                else (if neg then - 1 else 1) * int (decimal ed))
          else 0)"

definition pow10 :: "int \<Rightarrow> rat" where
  "pow10 e = (if 0 \<le> e then 10 ^ nat e else 1 / 10 ^ nat (- e))"

definition parseFloat :: "string \<Rightarrow> jsnum" where
  "parseFloat s =
     (let (neg, s2) = strip_sign (dropWhile is_ws s)
      in if prefix ''Infinity'' s2 then (if neg then NegInf else PosInf)
         else
           (let ip = takeWhile is_digit s2;
                r1 = dropWhile is_digit s2;
                (fp, r2) = (case r1 of [] \<Rightarrow> ([], [])
                            | c # cs \<Rightarrow>
                                if c = CHR ''.''
                                then (takeWhile is_digit cs, dropWhile is_digit cs)
                                else ([], r1))
            in if ip = [] \<and> fp = [] then NaN
               else Num ((if neg then - 1 else 1) *
                         (of_nat (decimal ip) + of_nat (decimal fp) / 10 ^ length fp) *
                         pow10 (exponent r2))))"

text \<open>\<^verbatim>\<open>s.split(d)\<close> for a one-character separator.\<close>

fun split :: "char \<Rightarrow> string \<Rightarrow> string list" where
  "split d [] = [[]]"
| "split d (c # cs) =
     (if c = d then [] # split d cs
      else (case split d cs of [] \<Rightarrow> [[c]] | p # ps \<Rightarrow> (c # p) # ps))"

section \<open>The media descriptor\<close>

text \<open>
  An object used as a dictionary (\<^verbatim>\<open>hls_info\<close>, \<^verbatim>\<open>encodings_info\<close>) is an association
  list in the order \<^verbatim>\<open>Object.keys\<close> enumerates it (the keys of an object are pairwise
  distinct); a lookup \<^verbatim>\<open>obj[key]\<close> is \<open>map_of\<close>.
  An entry of \<^verbatim>\<open>encodings_info\<close> that is \<^verbatim>\<open>null\<close> behaves everywhere as one without
  \<^verbatim>\<open>h264\<close> and is modelled so.
\<close>

record encoding_profile =
  url :: "string option"

record encoding =
  h264 :: "encoding_profile option"

record quality_json =
  q_label :: "string option"
  q_value :: "string option"
  q_src :: "string option"
  q_url :: "string option"
  q_href :: "string option"
  q_type :: "string option"

text \<open>
  A chapter's time field is a number, a string, or anything else (absent, \<^verbatim>\<open>null\<close>,
  an object).
\<close>

datatype time_field = TNum jsnum | TStr string | TOther

record raw_chapter =
  startTime :: time_field
  endTime :: time_field
  chapterTitle :: "string option"

record text_track =
  kind :: "string option"
  track_src :: "string option"
  srclang :: "string option"
  track_label :: "string option"
  language :: "string option"

record 'v related_item =
  r_friendly_token :: 'v
  r_title :: 'v
  r_user :: "string option"
  r_author_name :: "string option"
  r_views :: 'v
  r_thumbnail_url :: "string option"
  r_author_thumbnail :: "string option"
  r_media_type :: 'v
  r_url :: 'v
  r_duration :: 'v
  r_size :: 'v
  r_likes :: 'v
  r_dislikes :: 'v
  r_add_date :: 'v
  r_description :: 'v

record 'v media =
  friendly_token :: "string option"
  title :: "string option"
  author_name :: "string option"
  author_profile :: "string option"
  author_thumbnail :: "string option"
  media_url :: "string option"
  poster_url :: "string option"
  media_type :: "string option"
  original_media_url :: "string option"
  hls_info :: "(string \<times> string) list option"
  encodings_info :: "(string \<times> encoding) list option"
  qualities :: "quality_json list option"
  chapter_data :: "raw_chapter list option"
  duration :: "jsnum option"
  related_media :: "'v related_item list option"

record 'v mediaData =
  data :: "'v media option"
  siteUrl :: string
  previewSprite :: "'v option"
  useRoundedCorners :: "'v option"
  isPlayList :: "'v option"
  nextLink :: "string option"
  urlAutoplay :: "bool option"
  urlMuted :: "bool option"

text \<open>\<^verbatim>\<open>mediaData.data?.f\<close> for an optional field \<open>f\<close>.\<close>

definition data_field :: "('v media \<Rightarrow> 'a option) \<Rightarrow> 'v mediaData \<Rightarrow> 'a option" where
  "data_field f m = (case data m of None \<Rightarrow> None | Some d \<Rightarrow> f d)"

section \<open>Source resolution: getMimeType and getVideoSources\<close>

record source =
  src :: string
  type :: string
  label :: "string option"

definition url_includes :: "string option \<Rightarrow> string \<Rightarrow> bool" where
  "url_includes u ext = (case u of None \<Rightarrow> False
                        | Some s \<Rightarrow> s \<noteq> [] \<and> str_includes (toLowerCase s) ext)"

definition getMimeType :: "string option \<Rightarrow> string option \<Rightarrow> string" where
  "getMimeType u mediaType =
     (if mediaType = Some ''audio'' then
        (if url_includes u ''.mp3'' then ''audio/mpeg''
         else if url_includes u ''.ogg'' then ''audio/ogg''
         else if url_includes u ''.wav'' then ''audio/wav''
         else if url_includes u ''.m4a'' then ''audio/mp4''
         else ''audio/mpeg'')
      else if url_includes u ''.webm'' then ''video/webm''
      else if url_includes u ''.ogg'' then ''video/ogg''
      else ''video/mp4'')"

text \<open>\<^verbatim>\<open>obj[key]\<close> when it is truthy.\<close>

definition own_prop :: "(string \<times> string) list \<Rightarrow> string \<Rightarrow> string option" where
  "own_prop obj key = (case map_of obj key of None \<Rightarrow> None
                   | Some v \<Rightarrow> if v = [] then None else Some v)"

text \<open>
  \<^verbatim>\<open>encodings[q] && encodings[q].h264 && encodings[q].h264.url\<close>: the URL when the
  conjunction is truthy.
\<close>

definition h264_url :: "(string \<times> encoding) list \<Rightarrow> string \<Rightarrow> string option" where
  "h264_url encodings q =
     (case map_of encodings q of None \<Rightarrow> None
      | Some e \<Rightarrow> (case h264 e of None \<Rightarrow> None
                   | Some p \<Rightarrow> (case url p of None \<Rightarrow> None
                                | Some u \<Rightarrow> if u = [] then None else Some u)))"

definition hls_source :: "string \<Rightarrow> string \<Rightarrow> string \<Rightarrow> source" where
  "hls_source site file l =
     \<lparr>src = site @ file, type = ''application/x-mpegURL'', label = Some l\<rparr>"

text \<open>
  The three blocks of \<^verbatim>\<open>getVideoSources\<close>; each returns \<open>None\<close> where the source falls
  through to the next block.
\<close>

definition hls_sources :: "'v mediaData \<Rightarrow> string \<Rightarrow> source list option" where
  "hls_sources m userQuality =
     (case data_field hls_info m of None \<Rightarrow> None
      | Some hls \<Rightarrow>
          (case (if userQuality = ''auto'' then own_prop hls ''master_file'' else None) of
             Some master \<Rightarrow> Some [hls_source (siteUrl m) master ''Auto'']
           | None \<Rightarrow>
              (case (if userQuality \<noteq> ''auto''
                     then own_prop hls (replace ''p'' '''' userQuality @ ''_playlist'')
                     else None) of
                 Some playlist \<Rightarrow>
                   Some [hls_source (siteUrl m) playlist (userQuality @ ''p'')]
               | None \<Rightarrow>
                  (case own_prop hls ''master_file'' of
                     Some master \<Rightarrow> Some [hls_source (siteUrl m) master ''Auto'']
                   | None \<Rightarrow> None))))"

definition encoding_source :: "'v mediaData \<Rightarrow> string \<Rightarrow> string \<Rightarrow> source" where
  "encoding_source m quality sourceUrl =
     \<lparr>src = sourceUrl,
      type = getMimeType (Some sourceUrl) (data_field media_type m),
      label = Some (quality @ ''p'')\<rparr>"

definition compare_desc :: "string \<Rightarrow> string \<Rightarrow> int option" where
  "compare_desc a b = minus_opt (parseInt b) (parseInt a)"

definition availableKeys :: "(string \<times> encoding) list \<Rightarrow> string list" where
  "availableKeys encodings =
     filter (\<lambda>quality. h264_url encodings quality \<noteq> None) (map fst encodings)"

definition ladder :: "'v mediaData \<Rightarrow> (string \<times> encoding) list \<Rightarrow> source list" where
  "ladder m encodings =
     map (\<lambda>quality. encoding_source m quality (the (h264_url encodings quality)))
         (js_sort compare_desc (availableKeys encodings))"

definition encoding_sources :: "'v mediaData \<Rightarrow> string \<Rightarrow> source list option" where
  "encoding_sources m userQuality =
     (case data_field encodings_info m of None \<Rightarrow> None
      | Some encodings \<Rightarrow>
          (case (if userQuality \<noteq> ''auto''
                 then h264_url encodings (replace ''p'' '''' userQuality) else None) of
             Some u \<Rightarrow> Some [encoding_source m (replace ''p'' '''' userQuality) u]
           | None \<Rightarrow>
               (let sources = ladder m encodings
                in if sources \<noteq> [] then Some sources else None)))"

definition fallback_sources :: "'v mediaData \<Rightarrow> source list" where
  "fallback_sources m =
     (case data_field original_media_url m of
        Some u \<Rightarrow>
          (if u \<noteq> [] then
             [\<lparr>src = siteUrl m @ u,
               type = getMimeType (Some (siteUrl m @ u)) (data_field media_type m),
               label = None\<rparr>]
           else [\<lparr>src = ''/videos/sample-video.mp4'', type = ''video/mp4'', label = None\<rparr>])
      | None \<Rightarrow> [\<lparr>src = ''/videos/sample-video.mp4'', type = ''video/mp4'', label = None\<rparr>])"

definition getVideoSources :: "'v mediaData \<Rightarrow> string \<Rightarrow> source list" where
  "getVideoSources m userQuality =
     (case hls_sources m userQuality of
        Some r \<Rightarrow> r
      | None \<Rightarrow>
          (case encoding_sources m userQuality of
             Some r \<Rightarrow> r
           | None \<Rightarrow> fallback_sources m))"

section \<open>The current video record and the related videos\<close>

text \<open>
  \<^verbatim>\<open>x || true\<close> and \<^verbatim>\<open>x || false\<close> on an optional boolean. A field that only passes
  through has the type \<open>'v\<close> of opaque values; \<open>previewSprite\<close> absent stands for the
  empty object the source puts in its place. The imported poster image is a parameter.
\<close>

definition or_bool :: "bool option \<Rightarrow> bool \<Rightarrow> bool" where
  "or_bool a d = (case a of Some True \<Rightarrow> True | _ \<Rightarrow> d)"

record 'v video =
  cv_id :: string
  cv_title :: string
  cv_author_name :: string
  cv_author_profile :: string
  cv_author_thumbnail :: string
  cv_url :: string
  cv_poster :: string
  cv_previewSprite :: "'v option"
  cv_useRoundedCorners :: "'v option"
  cv_isPlayList :: "'v option"
  cv_related_media :: "'v related_item list"
  cv_nextLink :: "string option"
  cv_urlAutoplay :: bool
  cv_urlMuted :: bool
  cv_sources :: "source list"

definition site_prefixed :: "'v mediaData \<Rightarrow> string option \<Rightarrow> string \<Rightarrow> string" where
  "site_prefixed m v d = (if truthy v then siteUrl m @ the v else d)"

definition currentVideo :: "string \<Rightarrow> 'v mediaData \<Rightarrow> string \<Rightarrow> 'v video" where
  "currentVideo audioPosterImg m userQualityPreference =
     \<lparr>cv_id = or_default (data_field friendly_token m) ''default-video'',
      cv_title = or_default (data_field title m) ''Video'',
      cv_author_name = or_default (data_field author_name m) ''Unknown'',
      cv_author_profile = site_prefixed m (data_field author_profile m) [],
      cv_author_thumbnail = site_prefixed m (data_field author_thumbnail m) [],
      cv_url = or_default (data_field media_url m) [],
      cv_poster = site_prefixed m (data_field poster_url m) audioPosterImg,
      cv_previewSprite = previewSprite m,
      cv_useRoundedCorners = useRoundedCorners m,
      cv_isPlayList = isPlayList m,
      cv_related_media = (case data_field related_media m of None \<Rightarrow> [] | Some rs \<Rightarrow> rs),
      cv_nextLink = (if truthy (nextLink m) then nextLink m else None),
      cv_urlAutoplay = or_bool (urlAutoplay m) True,
      cv_urlMuted = or_bool (urlMuted m) False,
      cv_sources = getVideoSources m userQualityPreference\<rparr>"

record 'v related_video =
  rv_id :: 'v
  rv_title :: 'v
  rv_author :: string
  rv_views :: string
  rv_thumbnail :: "string option"
  rv_category :: 'v
  rv_url :: 'v
  rv_duration :: 'v
  rv_size :: 'v
  rv_likes :: 'v
  rv_dislikes :: 'v
  rv_add_date :: 'v
  rv_description :: 'v

text \<open>
  The object built for one related item; \<open>toStr\<close> is the conversion the template
  literal applies to \<^verbatim>\<open>media.views\<close>.
\<close>

definition related_entry :: "('v \<Rightarrow> string) \<Rightarrow> 'v related_item \<Rightarrow> 'v related_video" where
  "related_entry toStr media =
     \<lparr>rv_id = r_friendly_token media,
      rv_title = r_title media,
      rv_author = or_default (or_else (r_user media) (r_author_name media)) ''Unknown'',
      rv_views = toStr (r_views media) @ '' views'',
      rv_thumbnail = or_else (r_thumbnail_url media) (r_author_thumbnail media),
      rv_category = r_media_type media,
      rv_url = r_url media,
      rv_duration = r_duration media,
      rv_size = r_size media,
      rv_likes = r_likes media,
      rv_dislikes = r_dislikes media,
      rv_add_date = r_add_date media,
      rv_description = r_description media\<rparr>"

definition relatedVideos :: "('v \<Rightarrow> string) \<Rightarrow> 'v mediaData \<Rightarrow> 'v related_video list" where
  "relatedVideos toStr m =
     (case data_field related_media m of
        None \<Rightarrow> []
      | Some rs \<Rightarrow> map (related_entry toStr) (take 12 rs))"

section \<open>Subtitle language matching\<close>

definition track_lang :: "text_track \<Rightarrow> string" where
  "track_lang t = or_default (or_else (srclang t) (language t)) []"

definition matchLang :: "text_track \<Rightarrow> string option \<Rightarrow> bool" where
  "matchLang t target =
     (let tl = toLowerCase (track_lang t);
          sl = toLowerCase (or_default target [])
      in if tl = [] \<or> sl = [] then False
         else tl = sl \<or> startsWith tl (sl @ ''-'') \<or> startsWith sl (tl @ ''-''))"

section \<open>Chapters\<close>

record chapter_interval =
  c_startTime :: jsnum
  c_endTime :: jsnum
  c_chapterTitle :: "string option"

definition convertTimeStringToSeconds :: "time_field \<Rightarrow> jsnum" where
  "convertTimeStringToSeconds timeString =
     (case timeString of
        TNum n \<Rightarrow> n
      | TOther \<Rightarrow> Num 0
      | TStr s \<Rightarrow>
          (let parts = split CHR '':'' s
           in if length parts \<noteq> 3 then Num 0
              else
                (let hours = or_zero (of_parsed (parseInt10 (parts ! 0)));
                     minutes = or_zero (of_parsed (parseInt10 (parts ! 1)));
                     seconds = or_zero (parseFloat (parts ! 2))
                 in js_add (js_add (js_scale hours 3600) (js_scale minutes 60)) seconds)))"

definition convertChapter :: "raw_chapter \<Rightarrow> chapter_interval" where
  "convertChapter c =
     \<lparr>c_startTime = convertTimeStringToSeconds (startTime c),
      c_endTime = convertTimeStringToSeconds (endTime c),
      c_chapterTitle = chapterTitle c\<rparr>"

definition convertChaptersData :: "raw_chapter list option \<Rightarrow> chapter_interval list" where
  "convertChaptersData rawChaptersData =
     (case rawChaptersData of None \<Rightarrow> [] | Some cs \<Rightarrow> map convertChapter cs)"

text \<open>
  The title test: the lower-cased title matches
  \<^verbatim>\<open>/^(segment|video|full video|chapter|part)$/\<close>; an absent title does not.
\<close>

definition isGenericTitle :: "string option \<Rightarrow> bool" where
  "isGenericTitle t =
     (case t of None \<Rightarrow> False
      | Some s \<Rightarrow> toLowerCase s \<in>
                    set [''segment'', ''video'', ''full video'', ''chapter'', ''part''])"

definition hasRealChapters :: "raw_chapter list option \<Rightarrow> jsnum option \<Rightarrow> bool" where
  "hasRealChapters rawChaptersData videoDuration =
     (case rawChaptersData of
        None \<Rightarrow> False
      | Some [] \<Rightarrow> False
      | Some [c] \<Rightarrow>
          (let startSeconds = convertTimeStringToSeconds (startTime c);
               endSeconds = convertTimeStringToSeconds (endTime c);
               generic = isGenericTitle (chapterTitle c);
               fallback = \<not> (js_eq startSeconds (Num 0) \<and> generic)
           in case videoDuration of
                None \<Rightarrow> fallback
              | Some d \<Rightarrow>
                  if js_truthy d \<and> js_gt d (Num 0) then
                    (let isFullVideo = js_le startSeconds (Num 1) \<and>
                                       js_le (js_abs (js_sub endSeconds d)) (Num 1)
                     in if isFullVideo \<and> generic then False
                        else if \<not> isFullVideo then True
                        else fallback)
                  else fallback)
      | Some (c # c' # cs) \<Rightarrow> True)"

definition devChapters :: "raw_chapter list" where
  "devChapters =
     map (\<lambda>(s, e, t). \<lparr>startTime = TStr s, endTime = TStr e, chapterTitle = Some t\<rparr>)
       [(''00:00:00.000'', ''00:00:04.000'', ''Introduction''),
        (''00:00:05.000'', ''00:00:10.000'', ''Overview of Marine Life''),
        (''00:00:10.000'', ''00:00:15.000'', ''Coral Reef Ecosystems''),
        (''00:00:15.000'', ''00:00:20.000'', ''Deep Sea Creatures''),
        (''00:00:20.000'', ''00:00:30.000'', ''Ocean Conservation''),
        (''00:00:24.000'', ''00:00:32.000'', ''Ocean Conservation''),
        (''00:00:32.000'', ''00:00:40.000'', ''Climate Change Impact''),
        (''00:00:40.000'', ''00:00:48.000'', ''Marine Protected Areas''),
        (''00:00:48.000'', ''00:00:56.000'', ''Sustainable Fishing''),
        (''00:00:56.000'', ''00:00:64.000'', ''Research Methods''),
        (''00:00:64.000'', ''00:00:72.000'', ''Future Challenges''),
        (''00:00:72.000'', ''00:00:80.000'', ''Conclusion''),
        (''00:00:80.000'', ''00:00:88.000'', ''Marine Biodiversity Hotspots''),
        (''00:00:88.000'', ''00:00:96.000'', ''Marine Biodiversity test''),
        (''00:00:96.000'', ''00:01:04.000'', ''Whale Migration Patterns''),
        (''00:01:04.000'', ''00:01:12.000'', ''Plastic Pollution Crisis''),
        (''00:01:12.000'', ''00:01:20.000'', ''Seagrass Meadows''),
        (''00:01:20.000'', ''00:01:28.000'', ''Ocean Acidification''),
        (''00:01:28.000'', ''00:01:36.000'', ''Marine Archaeology''),
        (''00:01:28.000'', ''00:01:36.000'', ''Tidal Pool Ecosystems''),
        (''00:01:36.000'', ''00:01:44.000'', ''Commercial Aquaculture''),
        (''00:01:44.000'', ''00:01:52.000'', ''Ocean Exploration Technology'')]"

text \<open>
  \<^verbatim>\<open>mediaData?.data?.duration || null\<close>: a falsy duration (absent, 0, \<^verbatim>\<open>NaN\<close>) is
  \<^verbatim>\<open>null\<close>.
\<close>

definition videoDuration :: "'v mediaData \<Rightarrow> jsnum option" where
  "videoDuration m =
     (case data_field duration m of None \<Rightarrow> None
      | Some d \<Rightarrow> if js_truthy d then Some d else None)"

definition chaptersData :: "bool \<Rightarrow> 'v mediaData \<Rightarrow> chapter_interval list" where
  "chaptersData isDevMode m =
     (case data_field chapter_data m of
        Some (c # cs) \<Rightarrow>
          (if hasRealChapters (Some (c # cs)) (videoDuration m)
           then convertChaptersData (Some (c # cs)) else [])
      | _ \<Rightarrow> (if isDevMode then map convertChapter devChapters else []))"

section \<open>The quality menu: availableQualities\<close>





record quality =
  ql_label :: string
  ql_value :: string
  ql_src :: "string option"
  ql_type :: string












section \<open>Autoplay after navigation\<close>

text \<open>
  The timer callback of the next-navigation autoplay. \<^verbatim>\<open>play()\<close> returns a promise the
  browser resolves or rejects; the browser is a function from the number of earlier
  calls to the outcome, and the model records every call on the player. A rejected
  promise is thrown at the \<^verbatim>\<open>await\<close>; the second component of a result is the error
  that escapes, if any. No other handler runs between the steps.
\<close>

datatype play_result = Resolved | Rejected string

datatype action =
    Play bool
  | SetMuted bool
  | LogPlayPrevented string
  | LogMutedBlocked string

record player =
  muted :: bool
  paused :: bool
  isDisposed :: bool
  calls :: nat
  trace :: "action list"

definition play :: "(nat \<Rightarrow> play_result) \<Rightarrow> player \<Rightarrow> player \<times> string option" where
  "play browser p =
     (let p' = p\<lparr>calls := Suc (calls p), trace := trace p @ [Play (muted p)]\<rparr>
      in case browser (calls p) of
           Resolved \<Rightarrow> (p'\<lparr>paused := False\<rparr>, None)
         | Rejected message \<Rightarrow> (p', Some message))"

definition set_muted :: "bool \<Rightarrow> player \<Rightarrow> player" where
  "set_muted b p = p\<lparr>muted := b, trace := trace p @ [SetMuted b]\<rparr>"

definition console_error :: "action \<Rightarrow> player \<Rightarrow> player" where
  "console_error a p = p\<lparr>trace := trace p @ [a]\<rparr>"

definition autoplayCallback ::
  "(nat \<Rightarrow> play_result) \<Rightarrow> player option \<Rightarrow> player option \<times> string option" where
  "autoplayCallback browser playerRef =
     (case playerRef of
        None \<Rightarrow> (None, None)
      | Some p \<Rightarrow>
          if isDisposed p then (Some p, None)
          else
            (case play browser p of
               (p1, None) \<Rightarrow> (Some p1, None)
             | (p1, Some error) \<Rightarrow>
                 (let p2 = console_error (LogPlayPrevented error) p1
                  in if \<not> muted p2 then
                       (case play browser (set_muted True p2) of
                          (p3, None) \<Rightarrow> (Some p3, None)
                        | (p3, Some mutedError) \<Rightarrow>
                            (Some (console_error (LogMutedBlocked mutedError) p3), None))
                     else (Some p2, None))))"

text \<open>
  The callback is scheduled only outside an embed player and when the page URL has the
  parameter \<^verbatim>\<open>m\<close>.
\<close>

definition autoplayOnNavigation ::
  "bool \<Rightarrow> string option \<Rightarrow> (nat \<Rightarrow> play_result) \<Rightarrow> player option \<Rightarrow>
   player option \<times> string option" where
  "autoplayOnNavigation isEmbedPlayer hasVideoParam browser playerRef =
     (if \<not> isEmbedPlayer \<and> truthy hasVideoParam then autoplayCallback browser playerRef
      else (playerRef, None))"

definition play_attempts :: "player \<Rightarrow> action list" where
  "play_attempts p = filter (\<lambda>a. case a of Play _ \<Rightarrow> True | _ \<Rightarrow> False) (trace p)"

section \<open>Inputs used in the statements below\<close>

text \<open>
  A descriptor with every optional field absent, an encoding with an h264 URL, and the
  reading of "no adaptive manifest": \<^verbatim>\<open>hls_info\<close> is absent or holds no truthy value.
\<close>

definition blank_media :: "unit media" where
  "blank_media =
     \<lparr>friendly_token = None, title = None, author_name = None, author_profile = None,
      author_thumbnail = None, media_url = None, poster_url = None, media_type = None,
      original_media_url = None, hls_info = None, encodings_info = None,
      qualities = None, chapter_data = None, duration = None,
      related_media = None\<rparr>"

definition blank_mediaData :: "unit mediaData" where
  "blank_mediaData =
     \<lparr>data = None, siteUrl = '''', previewSprite = None, useRoundedCorners = None,
      isPlayList = None, nextLink = None, urlAutoplay = None, urlMuted = None\<rparr>"

definition rendition :: "string \<Rightarrow> encoding" where
  "rendition u = \<lparr>h264 = Some \<lparr>url = Some u\<rparr>\<rparr>"

definition blank_related :: "unit related_item" where
  "blank_related =
     \<lparr>r_friendly_token = (), r_title = (), r_user = None, r_author_name = None,
      r_views = (), r_thumbnail_url = None, r_author_thumbnail = None, r_media_type = (),
      r_url = (), r_duration = (), r_size = (), r_likes = (), r_dislikes = (),
      r_add_date = (), r_description = ()\<rparr>"

definition no_manifest :: "'v mediaData \<Rightarrow> bool" where
  "no_manifest m =
     (case data_field hls_info m of None \<Rightarrow> True
      | Some hls \<Rightarrow> list_all (\<lambda>kv. snd kv = []) hls)"

section \<open>Properties of source resolution\<close>

subsection \<open>The stable sort\<close>

lemma mset_sort_insert: "mset (sort_insert c x xs) = add_mset x (mset xs)"
  by (induction xs) auto

lemma mset_js_sort: "mset (js_sort c xs) = mset xs"
  by (induction xs) (auto simp: js_sort_def mset_sort_insert)

lemma set_js_sort: "set (js_sort c xs) = set xs"
  by (metis mset_js_sort set_mset_mset)

lemma length_js_sort: "length (js_sort c xs) = length xs"
  by (metis mset_js_sort size_mset)

lemma sorted_sort_insert:
  assumes "\<And>y. y \<in> set xs \<Longrightarrow> positive (c x y) = (f x < f y)"
    and "sorted_wrt (\<lambda>a b. f b \<le> (f a :: int)) xs"
  shows "sorted_wrt (\<lambda>a b. f b \<le> f a) (sort_insert c x xs)"
  using assms
proof (induction xs)
  case Nil
  then show ?case by simp
next
  case (Cons y ys)
  show ?case
  proof (cases "positive (c x y)")
    case True
    have "set (sort_insert c x ys) = insert x (set ys)"
      by (metis mset_sort_insert set_mset_add_mset_insert set_mset_mset)
    with True Cons show ?thesis by auto
  next
    case False
    with Cons show ?thesis by fastforce
  qed
qed

lemma sorted_js_sort:
  assumes "\<And>x y. x \<in> set xs \<Longrightarrow> y \<in> set xs \<Longrightarrow> positive (c x y) = (f x < f y)"
  shows "sorted_wrt (\<lambda>a b. f b \<le> (f a :: int)) (js_sort c xs)"
  using assms
proof (induction xs)
  case Nil
  then show ?case by (simp add: js_sort_def)
next
  case (Cons x xs)
  have "sorted_wrt (\<lambda>a b. f b \<le> f a) (js_sort c xs)"
    using Cons by simp
  moreover have "\<And>y. y \<in> set (js_sort c xs) \<Longrightarrow> positive (c x y) = (f x < f y)"
    using Cons.prems by (simp add: set_js_sort)
  ultimately have "sorted_wrt (\<lambda>a b. f b \<le> f a) (sort_insert c x (js_sort c xs))"
    by (rule sorted_sort_insert[rotated])
  then show ?case by (simp add: js_sort_def)
qed

lemma replace_p_suffix: "CHR ''p'' \<notin> set n \<Longrightarrow> replace ''p'' '''' (n @ ''p'') = n"
  by (induction n) auto

lemma compare_desc_positive:
  "parseInt a \<noteq> None \<Longrightarrow> parseInt b \<noteq> None \<Longrightarrow>
   positive (compare_desc a b) = (the (parseInt a) < the (parseInt b))"
  by (auto simp: compare_desc_def minus_opt_def positive_def)

subsection \<open>The blocks of getVideoSources\<close>

lemma no_manifest_hls_sources: "no_manifest m \<Longrightarrow> hls_sources m q = None"
proof -
  assume a: "no_manifest m"
  have "own_prop hls k = None" if "data_field hls_info m = Some hls" for hls k
  proof (cases "map_of hls k")
    case None
    then show ?thesis by (simp add: own_prop_def)
  next
    case (Some v)
    then have "(k, v) \<in> set hls" by (rule map_of_SomeD)
    with a that have "v = []" by (auto simp: no_manifest_def list_all_iff)
    with Some show ?thesis by (simp add: own_prop_def)
  qed
  then show ?thesis
    by (auto simp: hls_sources_def split: option.splits)
qed

lemma ladder_nonempty: "availableKeys enc \<noteq> [] \<Longrightarrow> ladder m enc \<noteq> []"
  by (simp add: ladder_def js_sort_def) (metis length_0_conv length_js_sort js_sort_def)

lemma sorted_available:
  assumes "\<forall>k\<in>set ks. parseInt k \<noteq> None"
  shows "sorted_wrt (\<lambda>a b. the (parseInt b) \<le> the (parseInt a)) (js_sort compare_desc ks)"
  by (rule sorted_js_sort) (use assms in \<open>simp add: compare_desc_positive\<close>)

lemma h264_url_available:
  assumes "h264_url enc k = Some u"
  shows "k \<in> set (availableKeys enc)"
proof -
  from assms obtain e where "map_of enc k = Some e"
    by (auto simp: h264_url_def split: option.splits)
  then have "(k, e) \<in> set enc" by (rule map_of_SomeD)
  then have "k \<in> set (map fst enc)" by force
  with assms show ?thesis by (simp add: availableKeys_def)
qed

lemma no_rendition_encoding_sources:
  assumes "\<And>enc. data_field encodings_info m = Some enc \<Longrightarrow> availableKeys enc = []"
  shows "encoding_sources m q = None"
proof (cases "data_field encodings_info m")
  case None
  then show ?thesis by (simp add: encoding_sources_def)
next
  case (Some enc)
  with assms have e: "availableKeys enc = []" by simp
  then have "h264_url enc k = None" for k
    using h264_url_available[of enc k] by (cases "h264_url enc k") auto
  with Some e show ?thesis
    by (simp add: encoding_sources_def ladder_def js_sort_def)
qed

text \<open>
  C4. For every media descriptor and every quality preference, \<open>getVideoSources\<close>
  returns a non-empty list of sources; when there is no adaptive manifest, no encoding
  with an h264 URL and no original media URL, it is the single hard-coded sample source.
\<close>

theorem getVideoSources_nonempty:
  "getVideoSources m q \<noteq> [] \<and>
   (no_manifest m \<and>
    (\<forall>enc. data_field encodings_info m = Some enc \<longrightarrow> availableKeys enc = []) \<and>
    \<not> truthy (data_field original_media_url m) \<longrightarrow>
      getVideoSources m q =
        [\<lparr>src = ''/videos/sample-video.mp4'', type = ''video/mp4'', label = None\<rparr>])"
proof -
  have "getVideoSources m q \<noteq> []"
    by (auto simp: getVideoSources_def hls_sources_def encoding_sources_def
        fallback_sources_def Let_def split: option.splits if_splits)
  moreover have "getVideoSources m q =
        [\<lparr>src = ''/videos/sample-video.mp4'', type = ''video/mp4'', label = None\<rparr>]"
    if "no_manifest m"
      "\<forall>enc. data_field encodings_info m = Some enc \<longrightarrow> availableKeys enc = []"
      "\<not> truthy (data_field original_media_url m)"
    using that no_manifest_hls_sources[of m q] no_rendition_encoding_sources[of m q]
    by (auto simp: getVideoSources_def fallback_sources_def truthy_def split: option.splits)
  ultimately show ?thesis by blast
qed

theorem getVideoSources_nonempty_witness:
  "getVideoSources
     (blank_mediaData\<lparr>data := Some (blank_media\<lparr>hls_info := Some [],
        encodings_info := Some [(''1440'', \<lparr>h264 = None\<rparr>)]\<rparr>)\<rparr>) ''720p'' =
     [\<lparr>src = ''/videos/sample-video.mp4'', type = ''video/mp4'', label = None\<rparr>]"
proof -
  let ?m = "blank_mediaData\<lparr>data := Some (blank_media\<lparr>hls_info := Some [],
        encodings_info := Some [(''1440'', \<lparr>h264 = None\<rparr>)]\<rparr>)\<rparr>"
  have h: "no_manifest ?m" by code_simp
  have e: "\<forall>enc. data_field encodings_info ?m = Some enc \<longrightarrow> availableKeys enc = []"
    by (simp add: data_field_def blank_mediaData_def blank_media_def availableKeys_def
        h264_url_def)
  have o: "\<not> truthy (data_field original_media_url ?m)"
    by (simp add: data_field_def blank_mediaData_def blank_media_def truthy_def)
  from getVideoSources_nonempty [of ?m "''720p''"] h e o show ?thesis by blast
qed

text \<open>
  C5. With no adaptive manifest and at least one encoding that has an h264 URL: a discrete
  preference whose encoding exists yields exactly that one encoding; otherwise (the
  preference is \<open>auto\<close>, or no encoding matches it) every available encoding is
  returned, in descending order of the number \<open>parseInt\<close> reads from its key, the keys
  being resolution numbers.
\<close>

theorem encoded_renditions_resolution:
  assumes "no_manifest m"
    and "data_field encodings_info m = Some enc"
    and "availableKeys enc \<noteq> []"
  shows "(q \<noteq> ''auto'' \<and> h264_url enc (replace ''p'' '''' q) = Some u \<longrightarrow>
           getVideoSources m q =
             [\<lparr>src = u, type = getMimeType (Some u) (data_field media_type m),
               label = Some (replace ''p'' '''' q @ ''p'')\<rparr>]) \<and>
         ((q = ''auto'' \<or> h264_url enc (replace ''p'' '''' q) = None) \<and>
          (\<forall>k\<in>set (availableKeys enc). parseInt k \<noteq> None) \<longrightarrow>
           (\<exists>ks. mset ks = mset (availableKeys enc) \<and>
                 sorted_wrt (\<lambda>a b. the (parseInt b) \<le> the (parseInt a)) ks \<and>
                 getVideoSources m q =
                   map (\<lambda>k. \<lparr>src = the (h264_url enc k),
                              type = getMimeType (Some (the (h264_url enc k)))
                                       (data_field media_type m),
                              label = Some (k @ ''p'')\<rparr>) ks))"
proof (intro conjI impI)
  assume "q \<noteq> ''auto'' \<and> h264_url enc (replace ''p'' '''' q) = Some u"
  then show "getVideoSources m q =
             [\<lparr>src = u, type = getMimeType (Some u) (data_field media_type m),
               label = Some (replace ''p'' '''' q @ ''p'')\<rparr>]"
    using assms
    by (simp add: getVideoSources_def no_manifest_hls_sources encoding_sources_def
        encoding_source_def)
next
  assume a: "(q = ''auto'' \<or> h264_url enc (replace ''p'' '''' q) = None) \<and>
          (\<forall>k\<in>set (availableKeys enc). parseInt k \<noteq> None)"
  let ?ks = "js_sort compare_desc (availableKeys enc)"
  have "encoding_sources m q = Some (ladder m enc)"
    using a assms ladder_nonempty[OF assms(3), of m]
    by (auto simp: encoding_sources_def Let_def)
  then have "getVideoSources m q = ladder m enc"
    using assms by (simp add: getVideoSources_def no_manifest_hls_sources)
  moreover have "mset ?ks = mset (availableKeys enc)" by (rule mset_js_sort)
  moreover have "sorted_wrt (\<lambda>a b. the (parseInt b) \<le> the (parseInt a)) ?ks"
    using a by (intro sorted_available) simp
  ultimately show "\<exists>ks. mset ks = mset (availableKeys enc) \<and>
                 sorted_wrt (\<lambda>a b. the (parseInt b) \<le> the (parseInt a)) ks \<and>
                 getVideoSources m q =
                   map (\<lambda>k. \<lparr>src = the (h264_url enc k),
                              type = getMimeType (Some (the (h264_url enc k)))
                                       (data_field media_type m),
                              label = Some (k @ ''p'')\<rparr>) ks"
    by (intro exI[of _ ?ks]) (simp add: ladder_def encoding_source_def)
qed

theorem encoded_renditions_resolution_witness:
  "getVideoSources
     (blank_mediaData\<lparr>data := Some (blank_media\<lparr>hls_info := Some [], encodings_info :=
        Some [(''240'', rendition ''/a240.mp4''), (''480'', rendition ''/a480.mp4''),
              (''720'', rendition ''/a720.mp4''), (''1440'', \<lparr>h264 = None\<rparr>)]\<rparr>)\<rparr>)
     ''480p'' =
     [\<lparr>src = ''/a480.mp4'', type = ''video/mp4'', label = Some ''480p''\<rparr>] \<and>
   (\<exists>ks. mset ks = {#''240'', ''480'', ''720''#} \<and>
         sorted_wrt (\<lambda>a b. the (parseInt b) \<le> the (parseInt a)) ks \<and>
         map label (getVideoSources
           (blank_mediaData\<lparr>data := Some (blank_media\<lparr>hls_info := Some [], encodings_info :=
              Some [(''240'', rendition ''/a240.mp4''), (''480'', rendition ''/a480.mp4''),
                    (''720'', rendition ''/a720.mp4''), (''1440'', \<lparr>h264 = None\<rparr>)]\<rparr>)\<rparr>)
           ''1080p'') = map (\<lambda>k. Some (k @ ''p'')) ks) \<and>
   map label (getVideoSources
     (blank_mediaData\<lparr>data := Some (blank_media\<lparr>hls_info := Some [], encodings_info :=
        Some [(''240'', rendition ''/a240.mp4''), (''480'', rendition ''/a480.mp4''),
              (''720'', rendition ''/a720.mp4''), (''1440'', \<lparr>h264 = None\<rparr>)]\<rparr>)\<rparr>)
     ''1080p'') = [Some ''720p'', Some ''480p'', Some ''240p'']"
proof -
  let ?enc = "[(''240'', rendition ''/a240.mp4''), (''480'', rendition ''/a480.mp4''),
              (''720'', rendition ''/a720.mp4''), (''1440'', \<lparr>h264 = None\<rparr>)]"
  let ?m = "blank_mediaData\<lparr>data := Some (blank_media\<lparr>hls_info := Some [],
              encodings_info := Some ?enc\<rparr>)\<rparr>"
  have h1: "no_manifest ?m" by code_simp
  have h2: "data_field encodings_info ?m = Some ?enc"
    by (simp add: data_field_def blank_mediaData_def blank_media_def)
  have k: "availableKeys ?enc = [''240'', ''480'', ''720'']" by code_simp
  have h3: "availableKeys ?enc \<noteq> []" by (simp add: k)
  have p: "parseInt ''240'' = Some 240" "parseInt ''480'' = Some 480"
    "parseInt ''720'' = Some 720"
    by code_simp+
  have u: "h264_url ?enc (replace ''p'' '''' ''480p'') = Some ''/a480.mp4''"
    "h264_url ?enc (replace ''p'' '''' ''1080p'') = None"
    by code_simp+
  have t: "getMimeType (Some ''/a480.mp4'') (data_field media_type ?m) = ''video/mp4''"
    by code_simp
  have r: "replace ''p'' '''' ''480p'' = ''480''" by code_simp
  from encoded_renditions_resolution [OF h1 h2 h3, of "''480p''" "''/a480.mp4''"] u t r
  have a: "getVideoSources ?m ''480p'' =
     [\<lparr>src = ''/a480.mp4'', type = ''video/mp4'', label = Some ''480p''\<rparr>]"
    by simp
  from encoded_renditions_resolution [OF h1 h2 h3, of "''1080p''"] u
  have "\<exists>ks. mset ks = mset (availableKeys ?enc) \<and>
                 sorted_wrt (\<lambda>a b. the (parseInt b) \<le> the (parseInt a)) ks \<and>
                 getVideoSources ?m ''1080p'' =
                   map (\<lambda>k. \<lparr>src = the (h264_url ?enc k),
                              type = getMimeType (Some (the (h264_url ?enc k)))
                                       (data_field media_type ?m),
                              label = Some (k @ ''p'')\<rparr>) ks"
    by (simp add: k p)
  then obtain ks where ks: "mset ks = mset (availableKeys ?enc)"
    "sorted_wrt (\<lambda>a b. the (parseInt b) \<le> the (parseInt a)) ks"
    "getVideoSources ?m ''1080p'' =
                   map (\<lambda>k. \<lparr>src = the (h264_url ?enc k),
                              type = getMimeType (Some (the (h264_url ?enc k)))
                                       (data_field media_type ?m),
                              label = Some (k @ ''p'')\<rparr>) ks"
    by blast
  from ks(3) have "map label (getVideoSources ?m ''1080p'') = map (\<lambda>k. Some (k @ ''p'')) ks"
    by (simp add: comp_def)
  moreover note a
  moreover have "map label (getVideoSources ?m ''1080p'') =
                   [Some ''720p'', Some ''480p'', Some ''240p'']"
    by code_simp
  ultimately show ?thesis
    using ks(1,2) k a by (intro conjI exI[of _ ks]) simp_all
qed

text \<open>
  C1, as amended. For a discrete preference \<open>q\<close>: when the manifest holds a playlist
  for \<open>q\<close>, exactly one source is returned, the playlist under the site URL with the
  HLS type; when the manifest block yields nothing (no \<^verbatim>\<open>hls_info\<close>, or neither a master
  file nor a playlist for \<open>q\<close>), \<open>q\<close> is a number followed by \<open>p\<close> and the encoding of
  that number has an h264 URL, the only source returned is that encoding, labelled \<open>q\<close>.
\<close>

theorem discrete_quality_resolution:
  assumes "q \<noteq> ''auto''"
  shows "(data_field hls_info m = Some hls \<and>
          own_prop hls (replace ''p'' '''' q @ ''_playlist'') = Some playlist \<longrightarrow>
            (\<exists>s. getVideoSources m q = [s] \<and> src s = siteUrl m @ playlist \<and>
                 type s = ''application/x-mpegURL'')) \<and>
         ((data_field hls_info m = None \<or>
           (\<exists>h. data_field hls_info m = Some h \<and> own_prop h ''master_file'' = None \<and>
                own_prop h (replace ''p'' '''' q @ ''_playlist'') = None)) \<and>
          data_field encodings_info m = Some enc \<and>
          q = n @ ''p'' \<and> CHR ''p'' \<notin> set n \<and> h264_url enc n = Some u \<longrightarrow>
            getVideoSources m q =
              [\<lparr>src = u, type = getMimeType (Some u) (data_field media_type m),
                label = Some q\<rparr>])"
proof (intro conjI impI)
  assume "data_field hls_info m = Some hls \<and>
          own_prop hls (replace ''p'' '''' q @ ''_playlist'') = Some playlist"
  then have "getVideoSources m q = [hls_source (siteUrl m) playlist (q @ ''p'')]"
    using assms by (simp add: getVideoSources_def hls_sources_def)
  then show "\<exists>s. getVideoSources m q = [s] \<and> src s = siteUrl m @ playlist \<and>
                 type s = ''application/x-mpegURL''"
    by (simp add: hls_source_def)
next
  assume a: "(data_field hls_info m = None \<or>
           (\<exists>h. data_field hls_info m = Some h \<and> own_prop h ''master_file'' = None \<and>
                own_prop h (replace ''p'' '''' q @ ''_playlist'') = None)) \<and>
          data_field encodings_info m = Some enc \<and>
          q = n @ ''p'' \<and> CHR ''p'' \<notin> set n \<and> h264_url enc n = Some u"
  then have r: "replace ''p'' '''' q = n"
    by (simp add: replace_p_suffix)
  from a have "hls_sources m q = None"
    by (auto simp: hls_sources_def)
  moreover from a r assms have "encoding_sources m q = Some [encoding_source m n u]"
    by (simp add: encoding_sources_def)
  ultimately show "getVideoSources m q =
              [\<lparr>src = u, type = getMimeType (Some u) (data_field media_type m),
                label = Some q\<rparr>]"
    using a by (simp add: getVideoSources_def encoding_source_def)
qed

theorem discrete_quality_resolution_witness:
  "(\<exists>s. getVideoSources
          (blank_mediaData\<lparr>siteUrl := ''https://x'', data := Some (blank_media\<lparr>hls_info :=
             Some [(''master_file'', ''/m.m3u8''), (''720_playlist'', ''/720.m3u8'')]\<rparr>)\<rparr>)
          ''720p'' = [s] \<and>
        src s = ''https://x/720.m3u8'' \<and> type s = ''application/x-mpegURL'') \<and>
   getVideoSources
     (blank_mediaData\<lparr>data := Some (blank_media\<lparr>encodings_info :=
        Some [(''240'', rendition ''/a240.mp4''), (''480'', rendition ''/a480.mp4''),
              (''720'', rendition ''/a720.mp4'')]\<rparr>)\<rparr>)
     ''480p'' =
     [\<lparr>src = ''/a480.mp4'', type = ''video/mp4'', label = Some ''480p''\<rparr>]"
proof -
  have t: "getMimeType (Some ''/a480.mp4'') None = ''video/mp4''"
    by code_simp
  show ?thesis
  using discrete_quality_resolution
    [of "''720p''"
        "blank_mediaData\<lparr>siteUrl := ''https://x'', data := Some (blank_media\<lparr>hls_info :=
             Some [(''master_file'', ''/m.m3u8''), (''720_playlist'', ''/720.m3u8'')]\<rparr>)\<rparr>"
        "[(''master_file'', ''/m.m3u8''), (''720_playlist'', ''/720.m3u8'')]"
        "''/720.m3u8''"]
    discrete_quality_resolution
    [of "''480p''"
        "blank_mediaData\<lparr>data := Some (blank_media\<lparr>encodings_info :=
        Some [(''240'', rendition ''/a240.mp4''), (''480'', rendition ''/a480.mp4''),
              (''720'', rendition ''/a720.mp4'')]\<rparr>)\<rparr>"
        _ _ 
        "[(''240'', rendition ''/a240.mp4''), (''480'', rendition ''/a480.mp4''),
              (''720'', rendition ''/a720.mp4'')]"
        "''480''" "''/a480.mp4''"]
  by (simp add: blank_mediaData_def blank_media_def data_field_def own_prop_def
      h264_url_def rendition_def t)
qed

text \<open>
  C1 as stated fails twice at \<open>q = 720p\<close>: the playlist branch labels its source
  \<open>720pp\<close>, and a matching encoding is not used while a master file exists (the source
  is the manifest, labelled \<open>Auto\<close>).
\<close>

theorem first_label_counterexample:
  "own_prop [(''master_file'', ''/m.m3u8''), (''720_playlist'', ''/720.m3u8'')]
      ''720_playlist'' = Some ''/720.m3u8'' \<and>
   map label (getVideoSources
     (blank_mediaData\<lparr>siteUrl := ''https://x'', data := Some (blank_media\<lparr>hls_info :=
        Some [(''master_file'', ''/m.m3u8''), (''720_playlist'', ''/720.m3u8'')]\<rparr>)\<rparr>)
     ''720p'') = [Some ''720pp''] \<and>
   h264_url [(''720'', rendition ''/a720.mp4'')] ''720'' = Some ''/a720.mp4'' \<and>
   map label (getVideoSources
     (blank_mediaData\<lparr>siteUrl := ''https://x'', data := Some (blank_media\<lparr>hls_info :=
        Some [(''master_file'', ''/m.m3u8'')],
        encodings_info := Some [(''720'', rendition ''/a720.mp4'')]\<rparr>)\<rparr>)
     ''720p'') = [Some ''Auto'']"
  by code_simp

section \<open>Properties of the current video record and the related videos\<close>

text \<open>
  C9. The \<open>urlAutoplay\<close> field of the current video is true for every input, also when
  the input sets it to false; the \<open>urlMuted\<close> field keeps an explicit false.
\<close>

theorem currentVideo_urlAutoplay:
  "cv_urlAutoplay (currentVideo poster m q) = True \<and>
   (urlMuted m = Some False \<longrightarrow> cv_urlMuted (currentVideo poster m q) = False)"
  by (auto simp: currentVideo_def or_bool_def split: option.splits bool.splits)

theorem currentVideo_urlAutoplay_witness:
  "cv_urlAutoplay (currentVideo ''poster.png''
      (blank_mediaData\<lparr>urlAutoplay := Some False, urlMuted := Some False\<rparr>) ''auto'') = True \<and>
   cv_urlMuted (currentVideo ''poster.png''
      (blank_mediaData\<lparr>urlAutoplay := Some False, urlMuted := Some False\<rparr>) ''auto'') = False"
  using currentVideo_urlAutoplay [of "''poster.png''"
      "blank_mediaData\<lparr>urlAutoplay := Some False, urlMuted := Some False\<rparr>" "''auto''"]
  by (simp add: blank_mediaData_def)

text \<open>
  C10. The related videos are at most 12, built from the first 12 entries of
  \<^verbatim>\<open>related_media\<close> in their order, and there are none when the field is absent.
\<close>

theorem relatedVideos_limit:
  "length (relatedVideos toStr m) \<le> 12 \<and>
   (data_field related_media m = Some rs \<longrightarrow>
      relatedVideos toStr m = map (related_entry toStr) (take 12 rs) \<and>
      map rv_id (relatedVideos toStr m) = take 12 (map r_friendly_token rs) \<and>
      length (relatedVideos toStr m) = min 12 (length rs)) \<and>
   (data_field related_media m = None \<longrightarrow> relatedVideos toStr m = [])"
  by (auto simp: relatedVideos_def related_entry_def take_map comp_def split: option.splits)

theorem relatedVideos_limit_witness:
  "length (relatedVideos (\<lambda>_. ''7'')
     (blank_mediaData\<lparr>data := Some (blank_media\<lparr>related_media :=
        Some (replicate 13 blank_related)\<rparr>)\<rparr>)) = 12 \<and>
   relatedVideos (\<lambda>_. ''7'') blank_mediaData = []"
  using relatedVideos_limit [of "\<lambda>_. ''7''"
      "blank_mediaData\<lparr>data := Some (blank_media\<lparr>related_media :=
        Some (replicate 13 blank_related)\<rparr>)\<rparr>" "replicate 13 blank_related"]
    relatedVideos_limit [of "\<lambda>_. ''7''" blank_mediaData]
  by (simp add: data_field_def blank_mediaData_def blank_media_def)

section \<open>Properties of subtitle language matching\<close>

text \<open>
  C7. With \<open>T\<close> the language tag of the track and \<open>S\<close> the stored preference:
  \<open>matchLang\<close> holds exactly when both are non-empty and, after case folding, \<open>T\<close>
  equals \<open>S\<close>, or \<open>T\<close> starts with \<open>S\<close> followed by \<open>-\<close>, or \<open>S\<close> starts with \<open>T\<close>
  followed by \<open>-\<close>; it is symmetric in the two tags; it never holds when either side is
  empty.
\<close>

theorem matchLang_characterisation:
  "matchLang t (Some s) =
     (track_lang t \<noteq> [] \<and> s \<noteq> [] \<and>
      (toLowerCase (track_lang t) = toLowerCase s \<or>
       prefix (toLowerCase s @ ''-'') (toLowerCase (track_lang t)) \<or>
       prefix (toLowerCase (track_lang t) @ ''-'') (toLowerCase s))) \<and>
   matchLang t (Some (track_lang t')) = matchLang t' (Some (track_lang t)) \<and>
   (track_lang t = [] \<or> target = None \<or> target = Some [] \<longrightarrow> \<not> matchLang t target)"
proof -
  have a: "matchLang t (Some s) =
     (track_lang t \<noteq> [] \<and> s \<noteq> [] \<and>
      (toLowerCase (track_lang t) = toLowerCase s \<or>
       prefix (toLowerCase s @ ''-'') (toLowerCase (track_lang t)) \<or>
       prefix (toLowerCase (track_lang t) @ ''-'') (toLowerCase s)))" for t s
    by (auto simp: matchLang_def Let_def toLowerCase_def startsWith_def or_default_def)
  have b: "matchLang t (Some (track_lang t')) = matchLang t' (Some (track_lang t))"
    unfolding a by auto
  have c: "track_lang t = [] \<or> target = None \<or> target = Some [] \<longrightarrow> \<not> matchLang t target"
    by (auto simp: matchLang_def Let_def toLowerCase_def or_default_def)
  from a b c show ?thesis by blast
qed

theorem matchLang_characterisation_witness:
  "matchLang \<lparr>kind = None, track_src = None, srclang = Some ''en-US'', track_label = None,
              language = None\<rparr> (Some ''EN'') \<and>
   matchLang \<lparr>kind = None, track_src = None, srclang = Some ''EN'', track_label = None,
              language = None\<rparr> (Some ''en-US'') \<and>
   \<not> matchLang \<lparr>kind = None, track_src = None, srclang = Some ''en-US'', track_label = None,
              language = None\<rparr> (Some [])"
proof -
  let ?t = "\<lparr>kind = None, track_src = None, srclang = Some ''en-US'', track_label = None,
              language = None\<rparr>"
  let ?t' = "\<lparr>kind = None, track_src = None, srclang = Some ''EN'', track_label = None,
              language = None\<rparr>"
  have l: "track_lang ?t = ''en-US''" "track_lang ?t' = ''EN''"
    by (simp_all add: track_lang_def or_else_def or_default_def truthy_def)
  have p: "prefix (toLowerCase ''EN'' @ ''-'') (toLowerCase ''en-US'')"
    by code_simp
  from matchLang_characterisation [of ?t "''EN''" ?t' "Some []"] l p
  show ?thesis by auto
qed

section \<open>Properties of chapter normalisation\<close>

subsection \<open>Reading digits\<close>























subsection \<open>A single chapter\<close>

lemma chaptersData_single:
  assumes "data_field chapter_data m = Some [c]"
  shows "chaptersData dev m =
           (if hasRealChapters (Some [c]) (videoDuration m) then [convertChapter c] else [])"
  using assms by (simp add: chaptersData_def convertChaptersData_def)

lemma hasRealChapters_single:
  "hasRealChapters (Some [c]) dur =
     (\<not> (isGenericTitle (chapterTitle c) \<and>
         ((\<exists>d. dur = Some d \<and> js_truthy d \<and> js_gt d (Num 0) \<and>
               js_le (convertTimeStringToSeconds (startTime c)) (Num 1) \<and>
               js_le (js_abs (js_sub (convertTimeStringToSeconds (endTime c)) d)) (Num 1)) \<or>
          (\<not> (\<exists>d. dur = Some d \<and> js_truthy d \<and> js_gt d (Num 0)) \<and>
           js_eq (convertTimeStringToSeconds (startTime c)) (Num 0)))))"
  by (cases dur) (auto simp: hasRealChapters_def Let_def)

text \<open>
  C3, as amended. For a chapter list of exactly one entry the result is empty precisely
  when the title is generic and either the duration is known and positive and the entry
  spans the whole video within one second (start at most 1, end within 1 of the
  duration), or the duration is unknown or not positive and the start is exactly 0;
  in every other case the one entry is kept, converted.
\<close>

theorem single_chapter_suppression:
  assumes "data_field chapter_data m = Some [c]"
  shows "(chaptersData dev m = []) =
           (isGenericTitle (chapterTitle c) \<and>
            ((\<exists>d. data_field duration m = Some d \<and> js_gt d (Num 0) \<and>
                  js_le (convertTimeStringToSeconds (startTime c)) (Num 1) \<and>
                  js_le (js_abs (js_sub (convertTimeStringToSeconds (endTime c)) d)) (Num 1)) \<or>
             (\<not> (\<exists>d. data_field duration m = Some d \<and> js_gt d (Num 0)) \<and>
              js_eq (convertTimeStringToSeconds (startTime c)) (Num 0)))) \<and>
         (chaptersData dev m \<noteq> [] \<longrightarrow> chaptersData dev m = [convertChapter c])"
proof -
  have p: "(\<exists>d. videoDuration m = Some d \<and> js_truthy d \<and> js_gt d (Num 0) \<and> P d) =
           (\<exists>d. data_field duration m = Some d \<and> js_gt d (Num 0) \<and> P d)" for P
    by (cases "data_field duration m")
       (auto simp: videoDuration_def js_truthy_def js_gt_def)
  show ?thesis
    unfolding chaptersData_single[OF assms] hasRealChapters_single
    using p[of "\<lambda>d. js_le (convertTimeStringToSeconds (startTime c)) (Num 1) \<and>
                  js_le (js_abs (js_sub (convertTimeStringToSeconds (endTime c)) d)) (Num 1)"]
      p[of "\<lambda>d. True"]
    by auto
qed

theorem single_chapter_suppression_witness:
  "chaptersData False
     (blank_mediaData\<lparr>data := Some (blank_media\<lparr>duration := Some (Num 10),
        chapter_data := Some [\<lparr>startTime = TNum (Num 0), endTime = TStr ''00:00:10.500'',
                               chapterTitle = Some ''Segment''\<rparr>]\<rparr>)\<rparr>) = [] \<and>
   chaptersData False
     (blank_mediaData\<lparr>data := Some (blank_media\<lparr>duration := Some (Num 10),
        chapter_data := Some [\<lparr>startTime = TNum (Num 0), endTime = TStr ''00:00:10.500'',
                               chapterTitle = Some ''Intro''\<rparr>]\<rparr>)\<rparr>) =
     [\<lparr>c_startTime = Num 0, c_endTime = Num (21 / 2), c_chapterTitle = Some ''Intro''\<rparr>]"
proof -
  let ?c1 = "\<lparr>startTime = TNum (Num 0), endTime = TStr ''00:00:10.500'',
              chapterTitle = Some ''Segment''\<rparr>"
  let ?c2 = "\<lparr>startTime = TNum (Num 0), endTime = TStr ''00:00:10.500'',
              chapterTitle = Some ''Intro''\<rparr>"
  let ?m1 = "blank_mediaData\<lparr>data := Some (blank_media\<lparr>duration := Some (Num 10),
              chapter_data := Some [?c1]\<rparr>)\<rparr>"
  let ?m2 = "blank_mediaData\<lparr>data := Some (blank_media\<lparr>duration := Some (Num 10),
              chapter_data := Some [?c2]\<rparr>)\<rparr>"
  have h1: "data_field chapter_data ?m1 = Some [?c1]"
    and h2: "data_field chapter_data ?m2 = Some [?c2]"
    and d: "data_field duration ?m1 = Some (Num 10)"
    by (simp_all add: data_field_def blank_mediaData_def blank_media_def)
  have g1: "isGenericTitle (chapterTitle ?c1)" and g2: "\<not> isGenericTitle (chapterTitle ?c2)"
    by code_simp+
  have f: "js_gt (Num 10) (Num 0) \<and>
           js_le (convertTimeStringToSeconds (startTime ?c1)) (Num 1) \<and>
           js_le (js_abs (js_sub (convertTimeStringToSeconds (endTime ?c1)) (Num 10))) (Num 1)"
    by code_simp
  have c: "convertChapter ?c2 =
     \<lparr>c_startTime = Num 0, c_endTime = Num (21 / 2), c_chapterTitle = Some ''Intro''\<rparr>"
    by code_simp
  from single_chapter_suppression [OF h1, of False] g1 d f
  have "chaptersData False ?m1 = []" by blast
  moreover from single_chapter_suppression [OF h2, of False] g2 c
  have "chaptersData False ?m2 =
     [\<lparr>c_startTime = Num 0, c_endTime = Num (21 / 2), c_chapterTitle = Some ''Intro''\<rparr>]"
    by simp
  ultimately show ?thesis by simp
qed

text \<open>
  C3 as stated puts no condition on the duration in its first alternative. With a
  duration of 0, a generic title and a chapter from 0.5 to 0.5, that alternative holds
  (start at most 1, end within 1 of the duration), yet the entry is kept: the span test
  runs only for a positive duration, and the fallback asks for a start of exactly 0.
\<close>

theorem single_chapter_counterexample:
  "isGenericTitle (Some ''video'') \<and>
   js_le (Num (1/2)) (Num 1) \<and> js_le (js_abs (js_sub (Num (1/2)) (Num 0))) (Num 1) \<and>
   chaptersData False
     (blank_mediaData\<lparr>data := Some (blank_media\<lparr>duration := Some (Num 0),
        chapter_data := Some [\<lparr>startTime = TNum (Num (1/2)), endTime = TNum (Num (1/2)),
                               chapterTitle = Some ''video''\<rparr>]\<rparr>)\<rparr>) =
     [\<lparr>c_startTime = Num (1/2), c_endTime = Num (1/2), c_chapterTitle = Some ''video''\<rparr>]"
  by code_simp

subsection \<open>Several chapters\<close>




section \<open>Properties of the quality menu\<close>

subsection \<open>Lower case, indexOf and the head of a sorted list\<close>








subsection \<open>normalize and the desired order\<close>













subsection \<open>The menu\<close>







section \<open>Properties of autoplay after navigation\<close>

text \<open>
  C8. When the first play attempt, made unmuted, is rejected, the player is muted and
  play is attempted exactly once more; there is no further attempt. If that attempt is
  rejected too, the rejection is logged, no error escapes, and the player is still
  paused.
\<close>

theorem autoplay_single_muted_retry:
  assumes "\<not> isEmbedPlayer" and "truthy hasVideoParam"
    and "\<not> isDisposed p" and "\<not> muted p" and "paused p"
    and "browser (calls p) = Rejected e"
    and "autoplayOnNavigation isEmbedPlayer hasVideoParam browser (Some p) = (r, thrown)"
  shows "\<exists>p'. r = Some p' \<and> thrown = None \<and>
           calls p' = calls p + 2 \<and>
           play_attempts p' = play_attempts p @ [Play False, Play True] \<and>
           muted p' \<and>
           trace p' = trace p @ [Play False, LogPlayPrevented e, SetMuted True, Play True] @
             (case browser (Suc (calls p)) of
                Resolved \<Rightarrow> []
              | Rejected e' \<Rightarrow> [LogMutedBlocked e']) \<and>
           (\<forall>e'. browser (Suc (calls p)) = Rejected e' \<longrightarrow> paused p') \<and>
           (browser (Suc (calls p)) = Resolved \<longrightarrow> \<not> paused p')"
  using assms
  by (cases "browser (Suc (calls p))")
     (auto simp: autoplayOnNavigation_def autoplayCallback_def play_def set_muted_def
      console_error_def play_attempts_def Let_def)

theorem autoplay_single_muted_retry_witness:
  "autoplayOnNavigation False (Some ''abc'') (\<lambda>_. Rejected ''NotAllowedError'')
     (Some \<lparr>muted = False, paused = True, isDisposed = False, calls = 0, trace = []\<rparr>) =
   (Some \<lparr>muted = True, paused = True, isDisposed = False, calls = 2,
          trace = [Play False, LogPlayPrevented ''NotAllowedError'', SetMuted True, Play True,
                   LogMutedBlocked ''NotAllowedError'']\<rparr>, None)"
proof -
  let ?p = "\<lparr>muted = False, paused = True, isDisposed = False, calls = 0, trace = []\<rparr>"
  let ?b = "\<lambda>_::nat. Rejected ''NotAllowedError''"
  obtain r thrown where a: "autoplayOnNavigation False (Some ''abc'') ?b (Some ?p) = (r, thrown)"
    by (cases "autoplayOnNavigation False (Some ''abc'') ?b (Some ?p)") 
  from autoplay_single_muted_retry [of False "Some ''abc''" ?p ?b "''NotAllowedError''" r thrown] a
  obtain p' where p': "r = Some p'" "thrown = None" "calls p' = 2" "muted p'" "paused p'"
    "trace p' = [Play False, LogPlayPrevented ''NotAllowedError'', SetMuted True, Play True,
                   LogMutedBlocked ''NotAllowedError'']"
    by (auto simp: truthy_def)
  have "isDisposed p' = False"
    using a p'(1)
    by (auto simp: autoplayOnNavigation_def autoplayCallback_def play_def set_muted_def
      console_error_def Let_def truthy_def)
  with p' have "p' = \<lparr>muted = True, paused = True, isDisposed = False, calls = 2,
          trace = [Play False, LogPlayPrevented ''NotAllowedError'', SetMuted True, Play True,
                   LogMutedBlocked ''NotAllowedError'']\<rparr>"
    by (cases p') simp
  with a p' show ?thesis by simp
qed

end
